theory Spec2Isabelle
  imports Complex_Main "HOL-Library.Multiset"
begin

section \<open>Python values and errors\<close>

text \<open>
  The exceptions that the modelled code (\<open>src/unsat/data.py\<close>) and the library calls it
  makes can raise. A computation that may raise returns \<open>py_error + 'a\<close>, with \<open>Inl\<close>
  carrying the exception.
\<close>

datatype py_error = IndexError | ZeroDivisionError | ValueError | KeyError | OSError | RuntimeError

text \<open>Sequencing: the first exception raised ends the computation.\<close>

definition thn :: "py_error + 'a \<Rightarrow> ('a \<Rightarrow> py_error + 'b) \<Rightarrow> py_error + 'b" where
  "thn r f = (case r of Inl e \<Rightarrow> Inl e | Inr x \<Rightarrow> f x)"

text \<open>A list comprehension whose element expression may raise: the first failure wins.\<close>

fun map_err :: "('a \<Rightarrow> py_error + 'b) \<Rightarrow> 'a list \<Rightarrow> py_error + 'b list" where
  "map_err f [] = Inr []"
| "map_err f (x # xs) = thn (f x) (\<lambda>y. thn (map_err f xs) (\<lambda>ys. Inr (y # ys)))"

text \<open>\<open>divmod(a, b)\<close> on Python integers: floor division, remainder with the divisor's sign.\<close>

definition py_divmod :: "int \<Rightarrow> int \<Rightarrow> py_error + (int \<times> int)" where
  "py_divmod a b = (if b = 0 then Inl ZeroDivisionError else Inr (a div b, a mod b))"

text \<open>\<open>xs[i]\<close> on a list or tuple: a negative subscript counts from the end.\<close>

definition py_getitem :: "'a list \<Rightarrow> int \<Rightarrow> py_error + 'a" where
  "py_getitem xs i =
     (if 0 \<le> i \<and> i < int (length xs) then Inr (xs ! nat i)
      else if i < 0 \<and> - int (length xs) \<le> i then Inr (xs ! nat (i + int (length xs)))
      else Inl IndexError)"

text \<open>\<open>range(n)\<close>, empty when \<open>n \<le> 0\<close>.\<close>

definition py_range :: "int \<Rightarrow> int list" where
  "py_range n = map int [0 ..< nat n]"

text \<open>
  One bound of \<open>slice(start, stop)\<close> applied to an axis of length \<open>n\<close>
  (\<open>slice.indices\<close> with step 1): negative bounds count from the end, and the result is
  clipped to \<open>[0, n]\<close>.
\<close>

definition slice_bound :: "int \<Rightarrow> int \<Rightarrow> int" where
  "slice_bound n x = (if x < 0 then max 0 (x + n) else min x n)"

text \<open>\<open>xs[start:stop]\<close> on a list.\<close>

definition py_slice :: "'a list \<Rightarrow> int \<Rightarrow> int \<Rightarrow> 'a list" where
  "py_slice xs start stop =
     (let n = int (length xs); lo = slice_bound n start; hi = slice_bound n stop
      in take (nat (hi - lo)) (drop (nat lo) xs))"

text \<open>\<open>int(x)\<close> on a finite float: truncation towards zero.\<close>

definition py_int :: "real \<Rightarrow> int" where
  "py_int x = (if 0 \<le> x then \<lfloor>x\<rfloor> else \<lceil>x\<rceil>)"

text \<open>\<open>len(obj)\<close>: Python rejects a negative \<open>__len__\<close>.\<close>

definition py_len :: "int \<Rightarrow> py_error + int" where
  "py_len n = (if n < 0 then Inl ValueError else Inr n)"

text \<open>Truthiness of an optional tuple: \<open>None\<close> and \<open>()\<close> are false.\<close>

definition py_not :: "'a list option \<Rightarrow> bool" where
  "py_not t = (case t of None \<Rightarrow> True | Some xs \<Rightarrow> xs = [])"

section \<open>Arrays\<close>

text \<open>
  A numpy array, an h5py dataset or a torch tensor: its shape and its element at each
  multi-index. Element casts (\<open>float32\<close>, \<open>long\<close>) are not modelled.
\<close>

datatype 'a ndarray = NDArray (shape: "int list") (elem: "int list \<Rightarrow> 'a")

text \<open>\<open>a[k]\<close> with an integer: selects along the leading axis.\<close>

definition nd_index :: "'a ndarray \<Rightarrow> int \<Rightarrow> py_error + 'a ndarray" where
  "nd_index a k =
     (case shape a of
        [] \<Rightarrow> Inl IndexError
      | n # rest \<Rightarrow>
          (let j = (if k < 0 then k + n else k)
           in if 0 \<le> j \<and> j < n then Inr (NDArray rest (\<lambda>idx. elem a (j # idx)))
              else Inl IndexError))"

text \<open>
  \<open>a[slices]\<close> with a tuple of \<open>slice(start, stop)\<close>, one per leading axis; the axes
  beyond the tuple are kept whole.
\<close>

definition slice_len :: "int \<Rightarrow> int \<times> int \<Rightarrow> int" where
  "slice_len n s = max 0 (slice_bound n (snd s) - slice_bound n (fst s))"

definition nd_slices :: "'a ndarray \<Rightarrow> (int \<times> int) list \<Rightarrow> py_error + 'a ndarray" where
  "nd_slices a slices =
     (let k = length slices in
      if k > length (shape a) then Inl IndexError
      else Inr (NDArray
             (map2 slice_len (take k (shape a)) slices @ drop k (shape a))
             (\<lambda>idx. elem a (map2 (\<lambda>(n, s) j. slice_bound n (fst s) + j)
                                  (zip (take k (shape a)) slices) (take k idx)
                              @ drop k idx))))"

text \<open>
  Whether position \<open>j\<close> of an axis of length \<open>n\<close> lies in \<open>slice(start, stop)\<close>, and
  whether a multi-index lies inside the region addressed by a tuple of slices.
\<close>

definition in_slice :: "int \<Rightarrow> int \<Rightarrow> int \<Rightarrow> int \<Rightarrow> bool" where
  "in_slice n start stop j = (slice_bound n start \<le> j \<and> j < slice_bound n stop)"

definition in_slices :: "int list \<Rightarrow> (int \<times> int) list \<Rightarrow> int list \<Rightarrow> bool" where
  "in_slices shp slices idx =
     list_all (\<lambda>(n, s, j). in_slice n (fst s) (snd s) j) (zip shp (zip slices idx))"

text \<open>\<open>a[slices] = v\<close>.\<close>

definition nd_set_slices :: "'a ndarray \<Rightarrow> (int \<times> int) list \<Rightarrow> 'a \<Rightarrow> py_error + 'a ndarray" where
  "nd_set_slices a slices v =
     (if length slices > length (shape a) then Inl IndexError
      else Inr (NDArray (shape a)
                  (\<lambda>idx. if in_slices (shape a) slices idx then v else elem a idx)))"

text \<open>\<open>torch.full(size, v)\<close>.\<close>

definition full :: "int list \<Rightarrow> 'a \<Rightarrow> py_error + 'a ndarray" where
  "full sz v = (if list_ex (\<lambda>n. n < 0) sz then Inl RuntimeError
                else Inr (NDArray sz (\<lambda>_. v)))"

text \<open>\<open>a.unsqueeze(0)\<close>.\<close>

definition unsqueeze0 :: "'a ndarray \<Rightarrow> 'a ndarray" where
  "unsqueeze0 a = NDArray (1 # shape a) (\<lambda>idx. elem a (tl idx))"

text \<open>
  \<open>np.random.randint(low, high)\<close>: an integer of the half-open range \<open>[low, high)\<close>,
  \<open>ValueError\<close> when the range is empty. The generator's raw draw is the argument \<open>r\<close>.
\<close>

definition randint :: "int \<Rightarrow> int \<Rightarrow> nat \<Rightarrow> py_error + int" where
  "randint low high r =
     (if low \<ge> high then Inl ValueError else Inr (low + int r mod (high - low)))"

section \<open>The backing store\<close>

text \<open>
  A leaf group of the HDF5 file holds the arrays \<open>data\<close> and \<open>labels\<close>. The file is the
  list of its leaf groups by path, in visiting order; the file system maps a path to
  the file stored there.
\<close>

record group =
  data :: "real ndarray"
  labels :: "int ndarray"

type_synonym hdf5 = "(string \<times> group) list"

definition h5py_File :: "(string \<rightharpoonup> hdf5) \<Rightarrow> string \<Rightarrow> py_error + hdf5" where
  "h5py_File fs path = (case fs path of None \<Rightarrow> Inl OSError | Some f \<Rightarrow> Inr f)"

definition h5_group :: "hdf5 \<Rightarrow> string \<Rightarrow> py_error + group" where
  "h5_group f nm = (case map_of f nm of None \<Rightarrow> Inl KeyError | Some g \<Rightarrow> Inr g)"

definition get_all_group_paths :: "hdf5 \<Rightarrow> string list" where
  "get_all_group_paths f = map fst f"

section \<open>DataSelection\<close>

record DataSelection =
  sample_list :: "string list"
  height_range :: "int \<times> int"
  day_range :: "int \<times> int"
  dimension :: int

definition num_samples :: "DataSelection \<Rightarrow> int" where
  "num_samples sel = int (length (sample_list sel))"

definition num_heights :: "DataSelection \<Rightarrow> int" where
  "num_heights sel = snd (height_range sel) - fst (height_range sel)"

definition num_days :: "DataSelection \<Rightarrow> int" where
  "num_days sel = snd (day_range sel) - fst (day_range sel)"

definition points_per_sample :: "DataSelection \<Rightarrow> int" where
  "points_per_sample sel =
     (if dimension sel = 2 then num_heights sel * num_days sel else num_days sel)"

definition num_points :: "DataSelection \<Rightarrow> int" where
  "num_points sel = num_samples sel * points_per_sample sel"

section \<open>XRayDataset\<close>

record XRayDataset =
  name :: string
  hdf5_path :: string
  hdf5_file :: "hdf5 option"
  selection :: DataSelection
  patch_size :: "int list option"
  patch_border :: "int list option"
  shuffle :: bool
  ds_dimension :: int

text \<open>\<open>XRayDataset.__init__\<close>: the \<open>shuffle\<close> argument is accepted and not stored.\<close>

definition XRayDataset_init ::
  "string \<Rightarrow> DataSelection \<Rightarrow> string \<Rightarrow> int list option \<Rightarrow> int list option \<Rightarrow> int \<Rightarrow> bool
     \<Rightarrow> XRayDataset" where
  "XRayDataset_init path data_selection nm psize pborder dimen shuffle_arg =
     \<lparr> name = nm, hdf5_path = path, hdf5_file = None, selection = data_selection,
       patch_size = psize, patch_border = pborder, shuffle = True, ds_dimension = dimen \<rparr>"

definition XRayDataset_len :: "XRayDataset \<Rightarrow> int" where
  "XRayDataset_len ds = num_points (selection ds)"

text \<open>
  Lines 101 to 106 of \<open>__getitem__\<close>: the flat index is resolved to the sample (its
  position in \<open>sample_list\<close> and its name), the day index and the height index.
\<close>

definition resolve_index :: "DataSelection \<Rightarrow> int \<Rightarrow> py_error + (int \<times> string \<times> int \<times> int)" where
  "resolve_index sel idx =
     thn (py_divmod idx (points_per_sample sel)) (\<lambda>(sample_idx, data_idx).
     thn (py_getitem (sample_list sel) sample_idx) (\<lambda>sample_name.
     thn (py_divmod data_idx (num_heights sel)) (\<lambda>(day_idx, height_idx).
       Inr (sample_idx, sample_name,
            day_idx + fst (day_range sel), height_idx + fst (height_range sel)))))"

text \<open>
  The loop body of \<open>compute_border_mask\<close> for axis \<open>i\<close>: \<open>border_start\<close> is the value
  of \<open>start\<close> after line 165, \<open>border_end\<close> the value of \<open>end\<close> after line 169, and
  \<open>border_slice\<close> the slice appended at line 171.
\<close>

definition border_start :: "int \<Rightarrow> int \<Rightarrow> int" where
  "border_start b p = (if b > p then b - p else b)"

definition border_end :: "int \<Rightarrow> int \<Rightarrow> int \<Rightarrow> int \<Rightarrow> int" where
  "border_end b ext p sz = (if b > ext - (p + sz) then b - (ext - (p + sz)) else b)"

definition border_slice ::
  "int list \<Rightarrow> int list \<Rightarrow> int list \<Rightarrow> int list \<Rightarrow> int \<Rightarrow> py_error + (int \<times> int)" where
  "border_slice psize pborder init_shape patch_starts i =
     thn (py_getitem pborder i) (\<lambda>b.
     thn (py_getitem patch_starts i) (\<lambda>p.
     thn (py_getitem init_shape i) (\<lambda>ext.
     thn (py_getitem psize i) (\<lambda>sz.
       Inr (border_start b p, sz - border_end b ext p sz)))))"

definition compute_border_mask ::
  "XRayDataset \<Rightarrow> int list \<Rightarrow> int list \<Rightarrow> py_error + bool ndarray" where
  "compute_border_mask ds init_shape patch_starts =
     (if py_not (patch_size ds) then full init_shape True
      else if py_not (patch_border ds) then full (the (patch_size ds)) True
      else
        thn (full (the (patch_size ds)) False) (\<lambda>mask.
        thn (map_err (border_slice (the (patch_size ds)) (the (patch_border ds))
                        init_shape patch_starts)
               (py_range (ds_dimension ds))) (\<lambda>slices.
          nd_set_slices mask slices True)))"

text \<open>
  Lines 116 to 129 of \<open>__getitem__\<close>: \<open>max_starts\<close> (line 119), the random starts
  (line 121), the centred starts (line 123), the choice between them, and the patches of
  \<open>data\<close> and \<open>labels\<close>. \<open>rnd i\<close> is the generator's raw draw for axis \<open>i\<close>.
\<close>

definition max_starts_of :: "int \<Rightarrow> int list \<Rightarrow> int list \<Rightarrow> py_error + int list" where
  "max_starts_of d init_shape psize =
     map_err (\<lambda>i. thn (py_getitem init_shape i) (\<lambda>ext.
                   thn (py_getitem psize i) (\<lambda>sz. Inr (ext - sz))))
       (py_range d)"

definition random_starts :: "int \<Rightarrow> (nat \<Rightarrow> nat) \<Rightarrow> int list \<Rightarrow> py_error + int list" where
  "random_starts d rnd max_starts =
     map_err (\<lambda>i. thn (py_getitem max_starts i) (\<lambda>m. randint 0 m (rnd (nat i))))
       (py_range d)"

definition centered_starts :: "int \<Rightarrow> int list \<Rightarrow> py_error + int list" where
  "centered_starts d max_starts =
     map_err (\<lambda>i. thn (py_getitem max_starts i) (\<lambda>m. Inr (m div 2))) (py_range d)"

definition patch_starts_of ::
  "XRayDataset \<Rightarrow> (nat \<Rightarrow> nat) \<Rightarrow> int list \<Rightarrow> int list \<Rightarrow> py_error + int list" where
  "patch_starts_of ds rnd init_shape psize =
     thn (max_starts_of (ds_dimension ds) init_shape psize) (\<lambda>max_starts.
       if shuffle ds then random_starts (ds_dimension ds) rnd max_starts
       else centered_starts (ds_dimension ds) max_starts)"

definition extract_patch ::
  "XRayDataset \<Rightarrow> (nat \<Rightarrow> nat) \<Rightarrow> real ndarray \<Rightarrow> int ndarray
     \<Rightarrow> py_error + (int list \<times> real ndarray \<times> int ndarray)" where
  "extract_patch ds rnd dat lab =
     (case patch_size ds of
        None \<Rightarrow> Inr ([], dat, lab)
      | Some psize \<Rightarrow>
          thn (patch_starts_of ds rnd (shape dat) psize) (\<lambda>patch_starts.
            (let slices = map (\<lambda>(start, sz). (start, start + sz)) (zip patch_starts psize)
             in thn (nd_slices dat slices) (\<lambda>d.
                thn (nd_slices lab slices) (\<lambda>l. Inr (patch_starts, d, l))))))"

text \<open>Lines 100 to 139 of \<open>__getitem__\<close>, on the opened file.\<close>

definition getitem_body ::
  "hdf5 \<Rightarrow> (nat \<Rightarrow> nat) \<Rightarrow> XRayDataset \<Rightarrow> int
     \<Rightarrow> py_error + (real ndarray \<times> int ndarray \<times> bool ndarray)" where
  "getitem_body file rnd ds idx =
     thn (resolve_index (selection ds) idx) (\<lambda>(sample_idx, sample_name, day_idx, height_idx).
     thn (h5_group file sample_name) (\<lambda>g.
     thn (nd_index (data g) day_idx) (\<lambda>data1.
     thn (nd_index (labels g) day_idx) (\<lambda>labels1.
     thn (if ds_dimension ds = 2
          then thn (nd_index data1 height_idx) (\<lambda>d.
               thn (nd_index labels1 height_idx) (\<lambda>l. Inr (d, l)))
          else Inr (data1, labels1)) (\<lambda>(data2, labels2).
     thn (extract_patch ds rnd data2 labels2) (\<lambda>(patch_starts, data3, labels3).
     thn (compute_border_mask ds (shape data2) patch_starts) (\<lambda>mask.
       Inr (unsqueeze0 data3, labels3, mask))))))))"

text \<open>Lines 97 and 98 of \<open>__getitem__\<close>: the file the call works on.\<close>

definition open_file :: "(string \<rightharpoonup> hdf5) \<Rightarrow> XRayDataset \<Rightarrow> py_error + hdf5" where
  "open_file fs ds =
     (case hdf5_file ds of None \<Rightarrow> h5py_File fs (hdf5_path ds) | Some f \<Rightarrow> Inr f)"

text \<open>
  \<open>XRayDataset.__getitem__\<close>: the file is opened at the first call and kept in the
  dataset. The result is the dataset after the call and the triple or the exception.
\<close>

definition getitem ::
  "(string \<rightharpoonup> hdf5) \<Rightarrow> (nat \<Rightarrow> nat) \<Rightarrow> XRayDataset \<Rightarrow> int
     \<Rightarrow> XRayDataset \<times> (py_error + (real ndarray \<times> int ndarray \<times> bool ndarray))" where
  "getitem fs rnd ds idx =
     (case open_file fs ds of
        Inl e \<Rightarrow> (ds, Inl e)
      | Inr file \<Rightarrow> (ds\<lparr>hdf5_file := Some file\<rparr>, getitem_body file rnd ds idx))"

text \<open>A sequence of \<open>__getitem__\<close> calls on one dataset object: the dataset after the last.\<close>

fun getitems ::
  "(string \<rightharpoonup> hdf5) \<Rightarrow> XRayDataset \<Rightarrow> ((nat \<Rightarrow> nat) \<times> int) list \<Rightarrow> XRayDataset" where
  "getitems fs ds [] = ds"
| "getitems fs ds (c # cs) = getitems fs (fst (getitem fs (fst c) ds (snd c))) cs"

section \<open>XRayDataModule\<close>

text \<open>A patch size or border given as one integer or as a tuple.\<close>

datatype size_arg = SizeInt int | SizeTuple "int list"

record dataset_kwargs =
  kw_hdf5_path :: string
  kw_patch_size :: "int list option"
  kw_patch_border :: "int list option"
  kw_dimension :: int

record XRayDataModule =
  m_hdf5_path :: string
  train_samples :: "string list"
  m_height_range :: "int \<times> int"
  train_day_range :: "int \<times> int"
  validation_split :: real
  seed :: int
  batch_size :: int
  num_workers :: int
  m_dimension :: int
  m_dataset_kwargs :: dataset_kwargs

text \<open>Lines 229 to 232: \<open>(x,) * dimension if isinstance(x, int) else x\<close>.\<close>

definition expand_size :: "int \<Rightarrow> size_arg option \<Rightarrow> int list option" where
  "expand_size d a =
     (case a of None \<Rightarrow> None
      | Some (SizeInt n) \<Rightarrow> Some (replicate (nat d) n)
      | Some (SizeTuple t) \<Rightarrow> Some t)"

definition XRayDataModule_init ::
  "string \<Rightarrow> string list \<Rightarrow> int \<times> int \<Rightarrow> int \<times> int \<Rightarrow> real \<Rightarrow> int \<Rightarrow> int \<Rightarrow> int \<Rightarrow> int
     \<Rightarrow> size_arg option \<Rightarrow> size_arg option \<Rightarrow> XRayDataModule" where
  "XRayDataModule_init path samples hrange drange vsplit bsize sd workers d psize pborder =
     \<lparr> m_hdf5_path = path, train_samples = samples, m_height_range = hrange,
       train_day_range = drange, validation_split = vsplit, seed = sd, batch_size = bsize,
       num_workers = workers, m_dimension = d,
       m_dataset_kwargs = \<lparr> kw_hdf5_path = path, kw_patch_size = expand_size d psize,
                            kw_patch_border = expand_size d pborder, kw_dimension = d \<rparr> \<rparr>"

text \<open>
  \<open>XRayDataset(data_selection=sel, name=nm, **self.dataset_kwargs)\<close>: \<open>shuffle\<close> takes
  its default.
\<close>

definition new_dataset :: "dataset_kwargs \<Rightarrow> DataSelection \<Rightarrow> string \<Rightarrow> XRayDataset" where
  "new_dataset kw sel nm =
     XRayDataset_init (kw_hdf5_path kw) sel nm (kw_patch_size kw) (kw_patch_border kw)
       (kw_dimension kw) True"

text \<open>
  \<open>torch.utils.data.Subset\<close> and \<open>random_split\<close> with integer lengths. The library
  raises \<open>ValueError\<close> unless the lengths sum to the dataset's length, draws
  \<open>randperm(sum(lengths))\<close> from the generator (here the argument \<open>perm\<close>) and gives
  part number \<open>k\<close> the slice \<open>indices[offset - length : offset]\<close>, \<open>offset\<close> being the
  sum of the first \<open>k\<close> lengths.
\<close>

record subset =
  sub_dataset :: XRayDataset
  sub_indices :: "int list"
  sub_name :: string

fun accumulate :: "int \<Rightarrow> int list \<Rightarrow> int list" where
  "accumulate acc [] = []"
| "accumulate acc (x # xs) = (acc + x) # accumulate (acc + x) xs"

definition random_split ::
  "XRayDataset \<Rightarrow> int list \<Rightarrow> (int \<Rightarrow> int list) \<Rightarrow> py_error + subset list" where
  "random_split ds lengths randperm =
     thn (py_len (XRayDataset_len ds)) (\<lambda>n.
       if sum_list lengths \<noteq> n then Inl ValueError
       else (let indices = randperm (sum_list lengths)
             in Inr (map (\<lambda>(offset, l).
                       \<lparr> sub_dataset = ds, sub_indices = py_slice indices (offset - l) offset,
                         sub_name = [] \<rparr>)
                     (zip (accumulate 0 lengths) lengths))))"

text \<open>
  The dictionary \<open>datasets\<close> built by \<open>prepare_data\<close> (lines 243 to 311).
\<close>

record datasets =
  train :: subset
  val :: subset
  test_strict :: XRayDataset
  test_overlap :: "XRayDataset list"

text \<open>
  \<open>prepare_data\<close>, lines 243 to 311. The environment is: the file system \<open>fs\<close>; the
  permutation \<open>randperm sd n\<close> that a generator seeded with \<open>sd\<close> draws for \<open>n\<close> items;
  \<open>rnd\<close>, the rounding of a real product to a float; and \<open>set_order\<close>, the order in
  which Python lists the elements of a set. \<open>train_val_selection\<close> is the selection
  of lines 244 to 249. The wrapping in loaders (lines 313 to 323) is not modelled.
\<close>

definition train_val_selection :: "XRayDataModule \<Rightarrow> DataSelection" where
  "train_val_selection m =
     \<lparr> sample_list = train_samples m, height_range = m_height_range m,
       day_range = train_day_range m, dimension = m_dimension m \<rparr>"

definition prepare_data ::
  "(string \<rightharpoonup> hdf5) \<Rightarrow> (int \<Rightarrow> int \<Rightarrow> int list) \<Rightarrow> (real \<Rightarrow> real) \<Rightarrow> (string list \<Rightarrow> string list)
     \<Rightarrow> XRayDataModule \<Rightarrow> py_error + datasets" where
  "prepare_data fs randperm rnd set_order m =
     (let train_val_dataset =
            new_dataset (m_dataset_kwargs m) (train_val_selection m) ''train_val''
      in
      thn (py_len (XRayDataset_len train_val_dataset)) (\<lambda>n.
        (let num_val_samples = py_int (rnd (validation_split m * real_of_int n));
             num_train_samples = n - num_val_samples
         in
         thn (random_split train_val_dataset [num_train_samples, num_val_samples]
                (randperm (seed m))) (\<lambda>parts.
         thn (case parts of [tr, va] \<Rightarrow> Inr (tr, va) | _ \<Rightarrow> Inl ValueError) (\<lambda>(tr, va).
         thn (h5py_File fs (m_hdf5_path m)) (\<lambda>file.
           (let all_samples = get_all_group_paths file;
                test_samples =
                  set_order (filter (\<lambda>s. s \<notin> set (train_samples m)) (remdups all_samples))
            in
            thn (py_getitem all_samples 0) (\<lambda>first.
            thn (h5_group file first) (\<lambda>g.
            thn (py_getitem (shape (data g)) 0) (\<lambda>total_days.
              (let test_day_range = (snd (train_day_range m), total_days);
                   strict_test_selection =
                     \<lparr> sample_list = test_samples, height_range = m_height_range m,
                       day_range = test_day_range, dimension = m_dimension m \<rparr>;
                   overlap_test_selection_same_days =
                     \<lparr> sample_list = test_samples, height_range = m_height_range m,
                       day_range = train_day_range m, dimension = m_dimension m \<rparr>;
                   overlap_test_selection_same_samples =
                     \<lparr> sample_list = train_samples m, height_range = m_height_range m,
                       day_range = test_day_range, dimension = m_dimension m \<rparr>
               in Inr \<lparr> train = tr\<lparr>sub_name := ''train''\<rparr>,
                        val = va\<lparr>sub_name := ''val''\<rparr>,
                        test_strict =
                          new_dataset (m_dataset_kwargs m) strict_test_selection ''test_strict'',
                        test_overlap =
                          [new_dataset (m_dataset_kwargs m) overlap_test_selection_same_days
                             ''test_overlap_same_days'',
                           new_dataset (m_dataset_kwargs m) overlap_test_selection_same_samples
                             ''test_overlap_same_samples''] \<rparr>)))))))))))"

section \<open>Reachable points and well-formed stores\<close>

text \<open>
  The (sample, day) pairs that a dataset over \<open>sel\<close> reads when it is given the indices
  \<open>idxs\<close>, and the pairs of a \<open>Subset\<close>, whose item \<open>i\<close> is item \<open>indices[i]\<close> of its
  dataset.
\<close>

definition reaches :: "DataSelection \<Rightarrow> int \<Rightarrow> string \<times> int \<Rightarrow> bool" where
  "reaches sel idx p =
     (case resolve_index sel idx of
        Inl e \<Rightarrow> False
      | Inr (sample_idx, sample_name, day_idx, height_idx) \<Rightarrow> p = (sample_name, day_idx))"

definition pairs_of :: "DataSelection \<Rightarrow> int set \<Rightarrow> (string \<times> int) set" where
  "pairs_of sel idxs = {p. \<exists>idx\<in>idxs. reaches sel idx p}"

definition subset_pairs :: "subset \<Rightarrow> (string \<times> int) set" where
  "subset_pairs s = pairs_of (selection (sub_dataset s)) (set (sub_indices s))"

text \<open>
  The coordinates (position in \<open>sample_list\<close>, day, height) that lines 101 to 106
  compute for an index, and the flat index of a coordinate triple in dimension 2.
\<close>

definition coords :: "DataSelection \<Rightarrow> int \<Rightarrow> int \<times> int \<times> int" where
  "coords sel idx =
     (idx div points_per_sample sel,
      idx mod points_per_sample sel div num_heights sel + fst (day_range sel),
      idx mod points_per_sample sel mod num_heights sel + fst (height_range sel))"

definition flat_index :: "DataSelection \<Rightarrow> int \<times> int \<times> int \<Rightarrow> int" where
  "flat_index sel c =
     (case c of (s, d, h) \<Rightarrow>
        s * points_per_sample sel
        + ((d - fst (day_range sel)) * num_heights sel + (h - fst (height_range sel))))"





section \<open>Example objects\<close>

definition example_selection :: DataSelection where
  "example_selection =
     \<lparr> sample_list = [''a'', ''b''], height_range = (0, 2), day_range = (0, 3), dimension = 2 \<rparr>"


definition volume_selection :: DataSelection where
  "volume_selection =
     \<lparr> sample_list = [''a''], height_range = (0, 2), day_range = (0, 2), dimension = 3 \<rparr>"

definition empty_height_dataset :: XRayDataset where
  "empty_height_dataset =
     XRayDataset_init ''store.h5''
       \<lparr> sample_list = [''a''], height_range = (0, 0), day_range = (0, 2), dimension = 3 \<rparr>
       ''train_val'' None None 3 True"

definition zero_array :: "'a::zero ndarray" where
  "zero_array = NDArray [4, 3, 20, 20] (\<lambda>idx. 0)"

definition example_file :: hdf5 where
  "example_file =
     [(''a'', \<lparr> data = zero_array, labels = zero_array \<rparr>),
      (''b'', \<lparr> data = zero_array, labels = zero_array \<rparr>),
      (''c'', \<lparr> data = zero_array, labels = zero_array \<rparr>)]"

definition example_fs :: "string \<rightharpoonup> hdf5" where
  "example_fs = [''store.h5'' \<mapsto> example_file]"

definition zero_draws :: "nat \<Rightarrow> nat" where
  "zero_draws i = 0"

definition descending_perm :: "int \<Rightarrow> int \<Rightarrow> int list" where
  "descending_perm sd n = rev (py_range n)"

definition example_module :: XRayDataModule where
  "example_module =
     XRayDataModule_init ''store.h5'' [''a'', ''b''] (0, 2) (0, 3) (1 / 4) 4 0 1 2
       (Some (SizeTuple [10, 8])) (Some (SizeInt 3))"

section \<open>Basic facts\<close>


lemma length_py_range: "length (py_range n) = nat n"
  by (simp add: py_range_def)





section \<open>The border mask\<close>



text \<open>
  With bounds that are not negative, a slice of an axis is the plain interval
  \<open>[start, stop)\<close> of the axis' positions.
\<close>

lemma in_slice_interval:
  "0 \<le> start \<Longrightarrow> 0 \<le> stop \<Longrightarrow> 0 \<le> j \<Longrightarrow> j < n \<Longrightarrow>
     in_slice n start stop j = (start \<le> j \<and> j < stop)"
  by (auto simp add: in_slice_def slice_bound_def)

text \<open>
  C1. A one-axis patch with \<open>patch_size = (10,)\<close>, \<open>patch_border = (3,)\<close>, axis extent 20
  and patch start 0 touches the low edge. The claim is that the included slice starts
  at index 0. The code computes \<open>start = 3 - 0 = 3\<close>: the slice of the axis is
  \<open>(3, 7)\<close>, the mask is false at the positions 0, 1 and 2 and true at 3.
\<close>

theorem border_mask_low_edge:
  "border_slice [10] [3] [20] [0] 0 = Inr (3, 7) \<and>
   (\<exists>m. compute_border_mask
          (ds\<lparr>patch_size := Some [10], patch_border := Some [3], ds_dimension := 1\<rparr>) [20] [0]
            = Inr m \<and>
        shape m = [10] \<and> \<not> elem m [0] \<and> \<not> elem m [1] \<and> \<not> elem m [2] \<and> elem m [3])"
  by (simp add: compute_border_mask_def py_not_def full_def thn_def py_range_def border_slice_def
      py_getitem_def border_start_def border_end_def nd_set_slices_def in_slices_def in_slice_def
      slice_bound_def)

text \<open>
  C3. The same patch with patch start 10 touches the far edge
  (\<open>20 - (10 + 10) = 0\<close>). The claim is that the excluded end margin is 0. The code
  computes \<open>end = 3 - 0 = 3\<close>: the slice of the axis is again \<open>(3, 7)\<close>, the mask is
  true at position 6 and false at the positions 7, 8 and 9.
\<close>

theorem border_mask_far_edge:
  "border_slice [10] [3] [20] [10] 0 = Inr (3, 7) \<and>
   (\<exists>m. compute_border_mask
          (ds\<lparr>patch_size := Some [10], patch_border := Some [3], ds_dimension := 1\<rparr>) [20] [10]
            = Inr m \<and>
        shape m = [10] \<and> elem m [6] \<and> \<not> elem m [7] \<and> \<not> elem m [8] \<and> \<not> elem m [9])"
  by (simp add: compute_border_mask_def py_not_def full_def thn_def py_range_def border_slice_def
      py_getitem_def border_start_def border_end_def nd_set_slices_def in_slices_def in_slice_def
      slice_bound_def)



section \<open>Patch placement\<close>

text \<open>
  C6. The claim is that a random patch start is drawn from the inclusive range
  \<open>[0, max_start]\<close>, so that \<open>max_start\<close> itself can be drawn and \<open>max_start = 0\<close> gives 0.
  The code calls \<open>np.random.randint(0, max_start)\<close>, whose upper bound is exclusive:
  no draw gives \<open>max_start\<close>, and with \<open>max_start = 0\<close> (a patch as large as the axis,
  here extent 10 and patch size 10) the call raises \<open>ValueError\<close>.
\<close>

theorem random_start_never_max_start:
  "randint 0 m r \<noteq> Inr m \<and> randint 0 0 r = Inl ValueError \<and>
   patch_starts_of (ds\<lparr>shuffle := True, ds_dimension := 1\<rparr>) rnd [10] [10] = Inl ValueError"
proof -
  have "int r mod m \<noteq> m" if "0 < m"
    using pos_mod_bound [OF that, of "int r"] by simp
  then show ?thesis
    by (auto simp add: randint_def patch_starts_of_def max_starts_of_def random_starts_def
        py_range_def py_getitem_def thn_def)
qed

lemma getitem_shuffle: "shuffle (fst (getitem fs rnd ds idx)) = shuffle ds"
  by (simp add: getitem_def split: sum.splits)

lemma getitem_ds_dimension: "ds_dimension (fst (getitem fs rnd ds idx)) = ds_dimension ds"
  by (simp add: getitem_def split: sum.splits)

lemma getitems_shuffle: "shuffle (getitems fs ds calls) = shuffle ds"
  by (induction calls arbitrary: ds) (simp_all add: getitem_shuffle)

lemma getitems_ds_dimension: "ds_dimension (getitems fs ds calls) = ds_dimension ds"
  by (induction calls arbitrary: ds) (simp_all add: getitem_ds_dimension)

text \<open>
  C7. Whatever the \<open>shuffle\<close> argument of the constructor, the new dataset has
  \<open>shuffle = True\<close>; the only method that changes the object, \<open>__getitem__\<close>, leaves the
  field as it is, so it is still true after any sequence of calls; and the patch starts
  of such a dataset are the random ones, never the centred ones.
\<close>

theorem shuffle_always_true:
  "shuffle (XRayDataset_init path sel nm psize pborder d shuffle_arg) \<and>
   shuffle (fst (getitem fs rnd ds idx)) = shuffle ds \<and>
   shuffle (getitems fs (XRayDataset_init path sel nm psize pborder d shuffle_arg) calls) \<and>
   patch_starts_of (getitems fs (XRayDataset_init path sel nm psize pborder d shuffle_arg) calls)
       rnd init_shape psz
     = thn (max_starts_of d init_shape psz) (random_starts d rnd)"
  by (simp add: getitems_shuffle getitems_ds_dimension getitem_shuffle patch_starts_of_def
      XRayDataset_init_def)

section \<open>When \<open>__getitem__\<close> returns\<close>









lemma patch_ok_nd_index:
  "nd_index a k = Inr b \<Longrightarrow> shape a = n # rest \<Longrightarrow> shape b = rest"
  by (auto simp add: nd_index_def Let_def split: if_splits)


section \<open>Index resolution\<close>

lemma div_shift: "(0::int) < p \<Longrightarrow> (idx + n * p) div p = idx div p + n"
  by simp

lemma div_shift_minus: "(0::int) < p \<Longrightarrow> (idx - n * p) div p = idx div p - n"
  using div_shift [of p "idx - n * p" n] by simp

lemma sample_range_iff:
  assumes "0 < points_per_sample sel"
  shows "(- num_samples sel \<le> idx div points_per_sample sel \<and>
          idx div points_per_sample sel < num_samples sel)
         = (- num_points sel \<le> idx \<and> idx < num_points sel)"
proof -
  let ?p = "points_per_sample sel" and ?n = "num_samples sel"
  have "(0 \<le> (idx + ?n * ?p) div ?p) = (0 \<le> idx + ?n * ?p)"
    using assms by (rule pos_imp_zdiv_nonneg_iff)
  moreover have "((idx - ?n * ?p) div ?p < 0) = (idx - ?n * ?p < 0)"
    using assms by (rule pos_imp_zdiv_neg_iff)
  ultimately show ?thesis
    unfolding div_shift [OF assms] div_shift_minus [OF assms] by (auto simp add: num_points_def)
qed

lemma div_less_of_less_mult: "(0::int) < n \<Longrightarrow> r < n * k \<Longrightarrow> r div n < k"
  using pos_imp_zdiv_neg_iff [of n "r - k * n"] div_shift_minus [of n r k]
  by (simp add: mult.commute)

lemma div_le_self_int: "(0::int) < n \<Longrightarrow> 0 \<le> r \<Longrightarrow> r div n \<le> r"
  by (metis div_pos_pos_trivial int_div_le_self leI nle_le)

lemma day_offset_bound:
  assumes "0 < points_per_sample sel" "0 < num_heights sel" "0 \<le> r" "r < points_per_sample sel"
  shows "0 \<le> r div num_heights sel \<and> r div num_heights sel < num_days sel"
proof (cases "dimension sel = 2")
  case True
  with assms have "r < num_heights sel * num_days sel" by (simp add: points_per_sample_def)
  then have "r div num_heights sel < num_days sel"
    using assms(2) by (simp add: div_less_of_less_mult)
  with assms show ?thesis by (simp add: pos_imp_zdiv_nonneg_iff)
next
  case False
  with assms have "r < num_days sel" by (simp add: points_per_sample_def)
  moreover have "r div num_heights sel \<le> r" using assms by (simp add: div_le_self_int)
  ultimately show ?thesis using assms by (simp add: pos_imp_zdiv_nonneg_iff)
qed

lemma resolve_index_eq:
  assumes "points_per_sample sel \<noteq> 0" "num_heights sel \<noteq> 0"
  shows "resolve_index sel idx =
     (if - num_samples sel \<le> idx div points_per_sample sel \<and>
         idx div points_per_sample sel < num_samples sel
      then Inr (idx div points_per_sample sel,
                sample_list sel ! nat (if idx div points_per_sample sel < 0
                                       then idx div points_per_sample sel + num_samples sel
                                       else idx div points_per_sample sel),
                idx mod points_per_sample sel div num_heights sel + fst (day_range sel),
                idx mod points_per_sample sel mod num_heights sel + fst (height_range sel))
      else Inl IndexError)"
  using assms
  by (simp add: resolve_index_def py_divmod_def thn_def py_getitem_def num_samples_def)




section \<open>The valid index range\<close>






lemma example_selection_sizes:
  "points_per_sample example_selection = 6" "num_heights example_selection = 2"
  "num_points example_selection = 12"
  by (simp_all add: example_selection_def points_per_sample_def num_heights_def num_days_def
      num_points_def num_samples_def)






section \<open>Empty height range\<close>

text \<open>
  C10 (as amended). With an empty height range (\<open>num_heights = 0\<close>) every call of
  \<open>__getitem__\<close> fails, for every dimension. If the file cannot be opened the call fails
  with that error. Otherwise it fails with \<open>ZeroDivisionError\<close> when
  \<open>points_per_sample = 0\<close> (always so when the selection's dimension is 2) and when
  \<open>idx // points_per_sample\<close> is a valid subscript of \<open>sample_list\<close> (so for every
  \<open>idx\<close> of \<open>[0, num_points)\<close>, also in dimension 3); for the remaining indices the
  sample lookup raises \<open>IndexError\<close> before the second \<open>divmod\<close> is reached.
\<close>

theorem empty_height_range_error:
  assumes "num_heights (selection ds) = 0"
  shows "snd (getitem fs rnd ds idx) =
     Inl (if isl (open_file fs ds) then projl (open_file fs ds)
          else if points_per_sample (selection ds) = 0 then ZeroDivisionError
          else if - num_samples (selection ds) \<le> idx div points_per_sample (selection ds) \<and>
                  idx div points_per_sample (selection ds) < num_samples (selection ds)
               then ZeroDivisionError
          else IndexError)"
  using assms
  by (auto simp add: getitem_def getitem_body_def resolve_index_def py_divmod_def
      py_getitem_def thn_def num_samples_def split: sum.splits)

theorem empty_height_range_error_witness:
  "num_heights (selection empty_height_dataset) = 0 \<and>
   snd (getitem example_fs zero_draws empty_height_dataset 1) = Inl ZeroDivisionError"
  using empty_height_range_error [of empty_height_dataset example_fs zero_draws 1]
  by (simp add: empty_height_dataset_def XRayDataset_init_def num_heights_def
      points_per_sample_def num_days_def num_samples_def example_fs_def open_file_def
      h5py_File_def)

text \<open>
  The claim C10 as stated, that every call fails with a division by zero, fails at
  \<open>idx = 5\<close> for one sample, two days and dimension 3: the error is \<open>IndexError\<close>.
\<close>

theorem empty_height_index_error:
  "num_heights (selection empty_height_dataset) = 0 \<and>
   snd (getitem example_fs zero_draws empty_height_dataset 5) = Inl IndexError"
  by (simp add: empty_height_dataset_def XRayDataset_init_def num_heights_def
      points_per_sample_def num_days_def getitem_def open_file_def h5py_File_def example_fs_def
      getitem_body_def resolve_index_def py_divmod_def py_getitem_def thn_def)

section \<open>Index resolution as a bijection\<close>

text \<open>
  In dimension 2 the resolution of lines 101 to 106 is a bijection from
  \<open>[0, num_points)\<close> onto the sample positions, days and heights of the selection, with
  \<open>flat_index\<close> as its inverse; \<open>resolve_index\<close> returns these coordinates.
\<close>

lemma flat_index_coords:
  assumes "num_heights sel \<noteq> 0" "points_per_sample sel \<noteq> 0"
  shows "flat_index sel (coords sel idx) = idx"
  by (simp add: flat_index_def coords_def)

lemma within_sample_bounds:
  assumes nh: "0 < num_heights sel" and dim: "dimension sel = 2"
      and d: "fst (day_range sel) \<le> d" "d < snd (day_range sel)"
      and h: "fst (height_range sel) \<le> h" "h < snd (height_range sel)"
  shows "0 \<le> (d - fst (day_range sel)) * num_heights sel + (h - fst (height_range sel))"
    "(d - fst (day_range sel)) * num_heights sel + (h - fst (height_range sel))
       < points_per_sample sel"
proof -
  let ?dd = "d - fst (day_range sel)" and ?hh = "h - fst (height_range sel)"
  have hh: "0 \<le> ?hh" "?hh < num_heights sel" using h by (simp_all add: num_heights_def)
  have dd: "0 \<le> ?dd" "?dd + 1 \<le> num_days sel" using d by (simp_all add: num_days_def)
  from dd(1) nh have "0 \<le> ?dd * num_heights sel" by simp
  with hh show "0 \<le> ?dd * num_heights sel + ?hh" by simp
  have "?dd * num_heights sel + ?hh < (?dd + 1) * num_heights sel"
    using hh by (simp add: algebra_simps)
  also have "\<dots> \<le> num_days sel * num_heights sel"
    using dd(2) nh by (simp add: mult_right_mono)
  finally show "?dd * num_heights sel + ?hh < points_per_sample sel"
    using dim by (simp add: points_per_sample_def mult.commute)
qed

lemma coords_flat_index:
  assumes nh: "0 < num_heights sel" and dim: "dimension sel = 2"
      and d: "fst (day_range sel) \<le> d" "d < snd (day_range sel)"
      and h: "fst (height_range sel) \<le> h" "h < snd (height_range sel)"
  shows "coords sel (flat_index sel (s, d, h)) = (s, d, h)"
proof -
  let ?dd = "d - fst (day_range sel)" and ?hh = "h - fst (height_range sel)"
  let ?r = "?dd * num_heights sel + ?hh"
  have hh: "0 \<le> ?hh" "?hh < num_heights sel" using h by (simp_all add: num_heights_def)
  have r: "0 \<le> ?r" "?r < points_per_sample sel"
    using within_sample_bounds [OF nh dim d h] by simp_all
  have q: "(s * points_per_sample sel + ?r) div points_per_sample sel = s"
    "(s * points_per_sample sel + ?r) mod points_per_sample sel = ?r"
    using r by (simp_all add: div_pos_pos_trivial mod_pos_pos_trivial)
  have i: "?r div num_heights sel = ?dd" "?r mod num_heights sel = ?hh"
    using hh by (simp_all add: div_pos_pos_trivial mod_pos_pos_trivial)
  show ?thesis
    unfolding coords_def flat_index_def prod.case q i by simp
qed

lemma resolve_index_dim2_bijection:
  assumes dim: "dimension sel = 2" and nh: "0 < num_heights sel" and nd: "0 < num_days sel"
  shows "bij_betw (coords sel) {0..<num_points sel}
           ({0..<num_samples sel} \<times> {fst (day_range sel)..<snd (day_range sel)}
              \<times> {fst (height_range sel)..<snd (height_range sel)})"
proof (rule bij_betw_byWitness [where f' = "flat_index sel"])
  have pps: "0 < points_per_sample sel" using dim nh nd by (simp add: points_per_sample_def)
  show "\<forall>a\<in>{0..<num_points sel}. flat_index sel (coords sel a) = a"
    using nh pps by (simp add: flat_index_coords)
  show "\<forall>c\<in>{0..<num_samples sel} \<times> {fst (day_range sel)..<snd (day_range sel)}
              \<times> {fst (height_range sel)..<snd (height_range sel)}.
          coords sel (flat_index sel c) = c"
    using coords_flat_index [OF nh dim] by auto
  show "coords sel ` {0..<num_points sel}
          \<subseteq> {0..<num_samples sel} \<times> {fst (day_range sel)..<snd (day_range sel)}
              \<times> {fst (height_range sel)..<snd (height_range sel)}"
  proof
    fix c assume "c \<in> coords sel ` {0..<num_points sel}"
    then obtain a where a: "c = coords sel a" "0 \<le> a" "a < num_points sel" by auto
    let ?r = "a mod points_per_sample sel"
    have q: "0 \<le> a div points_per_sample sel" "a div points_per_sample sel < num_samples sel"
      using sample_range_iff [OF pps, of a] a pps by (simp_all add: pos_imp_zdiv_nonneg_iff)
    have r: "0 \<le> ?r" "?r < points_per_sample sel" using pps by simp_all
    have d: "0 \<le> ?r div num_heights sel" "?r div num_heights sel < num_days sel"
      using day_offset_bound [OF pps nh r] by simp_all
    define dd where "dd = ?r div num_heights sel"
    define hh where "hh = ?r mod num_heights sel"
    have "0 \<le> hh" "hh < num_heights sel" using nh by (simp_all add: hh_def)
    then have hb: "fst (height_range sel) \<le> hh + fst (height_range sel)"
      "hh + fst (height_range sel) < snd (height_range sel)"
      by (simp_all add: num_heights_def)
    have "0 \<le> dd" "dd < num_days sel" using d by (simp_all add: dd_def)
    then have db: "fst (day_range sel) \<le> dd + fst (day_range sel)"
      "dd + fst (day_range sel) < snd (day_range sel)"
      by (simp_all add: num_days_def)
    have "c = (a div points_per_sample sel, dd + fst (day_range sel), hh + fst (height_range sel))"
      by (simp add: a(1) coords_def dd_def hh_def)
    with q db hb show "c \<in> {0..<num_samples sel} \<times> {fst (day_range sel)..<snd (day_range sel)}
              \<times> {fst (height_range sel)..<snd (height_range sel)}"
      by simp
  qed
  show "flat_index sel ` ({0..<num_samples sel} \<times> {fst (day_range sel)..<snd (day_range sel)}
              \<times> {fst (height_range sel)..<snd (height_range sel)}) \<subseteq> {0..<num_points sel}"
  proof
    fix a assume "a \<in> flat_index sel ` ({0..<num_samples sel}
        \<times> {fst (day_range sel)..<snd (day_range sel)}
        \<times> {fst (height_range sel)..<snd (height_range sel)})"
    then obtain s d h where c: "a = flat_index sel (s, d, h)" "0 \<le> s" "s < num_samples sel"
        "fst (day_range sel) \<le> d" "d < snd (day_range sel)"
        "fst (height_range sel) \<le> h" "h < snd (height_range sel)"
      by auto
    let ?r = "(d - fst (day_range sel)) * num_heights sel + (h - fst (height_range sel))"
    have r: "0 \<le> ?r" "?r < points_per_sample sel"
      using within_sample_bounds [OF nh dim c(4-7)] by simp_all
    have "0 \<le> s * points_per_sample sel" using c(2) pps by simp
    with r have lo: "0 \<le> s * points_per_sample sel + ?r" by simp
    have "s * points_per_sample sel + ?r < (s + 1) * points_per_sample sel"
      using r by (simp add: algebra_simps)
    also have "\<dots> \<le> num_samples sel * points_per_sample sel"
      using c(3) pps by (simp add: mult_right_mono)
    finally have "s * points_per_sample sel + ?r < num_points sel"
      by (simp add: num_points_def)
    with lo show "a \<in> {0..<num_points sel}" by (simp add: c(1) flat_index_def)
  qed
qed

lemma resolve_index_coords:
  assumes "0 < points_per_sample sel" "0 < num_heights sel" "0 \<le> idx" "idx < num_points sel"
  shows "resolve_index sel idx =
           (case coords sel idx of (s, d, h) \<Rightarrow> Inr (s, sample_list sel ! nat s, d, h))"
proof -
  have q: "0 \<le> idx div points_per_sample sel" "idx div points_per_sample sel < num_samples sel"
    using sample_range_iff [OF assms(1), of idx] assms by (simp_all add: pos_imp_zdiv_nonneg_iff)
  then show ?thesis using assms by (simp add: resolve_index_eq coords_def)
qed

text \<open>
  C2. The claim is that index resolution is a bijection from \<open>[0, num_points)\<close> onto
  the (sample, day, height) combinations when the dimension is 2 and onto the
  (sample, day) combinations when the dimension is 3. The code divides the index
  within the sample by \<open>num_heights\<close> in every dimension. For one sample, two heights,
  days \<open>[0, 2)\<close> and dimension 3 there are two points; both resolve to day 0, they
  load the same data, and day 1 is never visited.
\<close>

theorem volume_days_repeat:
  "num_points volume_selection = 2 \<and>
   resolve_index volume_selection 0 = Inr (0, ''a'', 0, 0) \<and>
   resolve_index volume_selection 1 = Inr (0, ''a'', 0, 1) \<and>
   getitem_body file rnd (ds\<lparr>selection := volume_selection, ds_dimension := 3\<rparr>) 1 =
   getitem_body file rnd (ds\<lparr>selection := volume_selection, ds_dimension := 3\<rparr>) 0"
  by (simp add: volume_selection_def num_points_def num_samples_def points_per_sample_def
      num_days_def num_heights_def resolve_index_def py_divmod_def py_getitem_def thn_def
      getitem_body_def)


section \<open>The train, validation and test split\<close>

lemma py_slice_prefix:
  "0 \<le> k \<Longrightarrow> k \<le> int (length xs) \<Longrightarrow> py_slice xs 0 k = take (nat k) xs"
  by (simp add: py_slice_def slice_bound_def Let_def)

lemma py_slice_suffix:
  "0 \<le> k \<Longrightarrow> k \<le> int (length xs) \<Longrightarrow> py_slice xs k (int (length xs)) = drop (nat k) xs"
  by (simp add: py_slice_def slice_bound_def Let_def)

lemma num_val_bounds:
  assumes "mono rnd" "rnd 0 = 0" "rnd (real_of_int n) = real_of_int n"
      and "0 \<le> v" "v \<le> 1" "0 \<le> n"
  shows "py_int (rnd (v * real_of_int n)) = \<lfloor>rnd (v * real_of_int n)\<rfloor>"
    "0 \<le> \<lfloor>rnd (v * real_of_int n)\<rfloor>" "\<lfloor>rnd (v * real_of_int n)\<rfloor> \<le> n"
proof -
  have "0 \<le> v * real_of_int n" using assms by simp
  then have lo: "0 \<le> rnd (v * real_of_int n)"
    using assms(1,2) monoD [of rnd 0 "v * real_of_int n"] by simp
  have "v * real_of_int n \<le> real_of_int n" using assms
    by (simp add: mult_left_le_one_le)
  then have hi: "rnd (v * real_of_int n) \<le> real_of_int n"
    using assms(1,3) monoD [of rnd "v * real_of_int n" "real_of_int n"] by simp
  from lo show "py_int (rnd (v * real_of_int n)) = \<lfloor>rnd (v * real_of_int n)\<rfloor>"
    by (simp add: py_int_def)
  from lo show "0 \<le> \<lfloor>rnd (v * real_of_int n)\<rfloor>" by simp
  from hi show "\<lfloor>rnd (v * real_of_int n)\<rfloor> \<le> n" by (simp add: floor_le_iff)
qed

text \<open>The value of \<open>prepare_data\<close> when it returns.\<close>

lemma prepare_data_value:
  assumes nv: "nv = py_int (rnd (validation_split m * real_of_int (num_points (train_val_selection m))))"
      and n: "0 \<le> num_points (train_val_selection m)"
      and opened: "fs (m_hdf5_path m) = Some ((nm, g) # groups)"
      and days: "shape (data g) = total_days # rest"
  shows "prepare_data fs randperm rnd set_order m =
     Inr \<lparr> train =
             \<lparr> sub_dataset = new_dataset (m_dataset_kwargs m) (train_val_selection m) ''train_val'',
               sub_indices = py_slice (randperm (seed m) (num_points (train_val_selection m)))
                               0 (num_points (train_val_selection m) - nv),
               sub_name = ''train'' \<rparr>,
           val =
             \<lparr> sub_dataset = new_dataset (m_dataset_kwargs m) (train_val_selection m) ''train_val'',
               sub_indices = py_slice (randperm (seed m) (num_points (train_val_selection m)))
                               (num_points (train_val_selection m) - nv)
                               (num_points (train_val_selection m)),
               sub_name = ''val'' \<rparr>,
           test_strict =
             new_dataset (m_dataset_kwargs m)
               \<lparr> sample_list =
                   set_order (filter (\<lambda>s. s \<notin> set (train_samples m))
                                (remdups (get_all_group_paths ((nm, g) # groups)))),
                 height_range = m_height_range m,
                 day_range = (snd (train_day_range m), total_days),
                 dimension = m_dimension m \<rparr> ''test_strict'',
           test_overlap =
             [new_dataset (m_dataset_kwargs m)
                \<lparr> sample_list =
                    set_order (filter (\<lambda>s. s \<notin> set (train_samples m))
                                 (remdups (get_all_group_paths ((nm, g) # groups)))),
                  height_range = m_height_range m, day_range = train_day_range m,
                  dimension = m_dimension m \<rparr> ''test_overlap_same_days'',
              new_dataset (m_dataset_kwargs m)
                \<lparr> sample_list = train_samples m, height_range = m_height_range m,
                  day_range = (snd (train_day_range m), total_days),
                  dimension = m_dimension m \<rparr> ''test_overlap_same_samples''] \<rparr>"
proof -
  have len: "XRayDataset_len (new_dataset (m_dataset_kwargs m) (train_val_selection m) ''train_val'')
      = num_points (train_val_selection m)"
    by (simp add: XRayDataset_len_def new_dataset_def XRayDataset_init_def)
  show ?thesis
    using n opened days
    by (simp add: prepare_data_def Let_def len py_len_def thn_def random_split_def nv [symmetric]
        h5py_File_def get_all_group_paths_def py_getitem_def h5_group_def)
qed


lemma py_getitem_mem: "py_getitem xs i = Inr x \<Longrightarrow> x \<in> set xs"
  by (auto simp add: py_getitem_def split: if_splits)

lemma reaches_sample: "reaches sel idx (nm, d) \<Longrightarrow> nm \<in> set (sample_list sel)"
  by (auto simp add: reaches_def resolve_index_def thn_def py_divmod_def
      split: sum.splits if_splits dest: py_getitem_mem)

lemma pairs_of_samples: "(nm, d) \<in> pairs_of sel idxs \<Longrightarrow> nm \<in> set (sample_list sel)"
  by (auto simp add: pairs_of_def dest: reaches_sample)

lemma pairs_of_disjoint:
  assumes "set (sample_list sel) \<inter> set (sample_list sel') = {}"
  shows "pairs_of sel idxs \<inter> pairs_of sel' idxs' = {}"
  using assms by (fastforce dest: pairs_of_samples)

lemma set_py_range: "set (py_range n) = {0..<n}"
  by (cases "0 \<le> n") (simp_all add: py_range_def image_int_atLeastLessThan)

lemma distinct_py_range: "distinct (py_range n)"
  by (simp add: py_range_def distinct_map inj_on_def)

lemma py_range_12: "py_range 12 = [0, 1, 2, 3, 4, 5, 6, 7, 8, 9, 10, 11]"
  by (simp add: py_range_def upt_rec)

lemma example_module_fields:
  "num_points (train_val_selection example_module) = 12"
  "validation_split example_module = 1 / 4"
  "m_hdf5_path example_module = ''store.h5''"
  "train_samples example_module = [''a'', ''b'']"
  "m_height_range example_module = (0, 2)" "train_day_range example_module = (0, 3)"
  "m_dimension example_module = 2"
  by (simp_all add: example_module_def XRayDataModule_init_def train_val_selection_def
      num_points_def num_samples_def points_per_sample_def num_heights_def num_days_def)

lemma example_module_file:
  "example_fs (m_hdf5_path example_module) =
     Some ((''a'', \<lparr> data = zero_array, labels = zero_array \<rparr>) # tl example_file)"
  "shape (data \<lparr> data = zero_array, labels = zero_array \<rparr>) = 4 # [3, 20, 20]"
  by (simp_all add: example_module_fields example_fs_def example_file_def zero_array_def)

lemma example_prepare_data:
  "prepare_data example_fs descending_perm id id example_module =
     Inr \<lparr> train =
             \<lparr> sub_dataset = new_dataset (m_dataset_kwargs example_module)
                               (train_val_selection example_module) ''train_val'',
               sub_indices = [11, 10, 9, 8, 7, 6, 5, 4, 3], sub_name = ''train'' \<rparr>,
           val =
             \<lparr> sub_dataset = new_dataset (m_dataset_kwargs example_module)
                               (train_val_selection example_module) ''train_val'',
               sub_indices = [2, 1, 0], sub_name = ''val'' \<rparr>,
           test_strict =
             new_dataset (m_dataset_kwargs example_module)
               \<lparr> sample_list = [''c''], height_range = (0, 2), day_range = (3, 4),
                 dimension = 2 \<rparr> ''test_strict'',
           test_overlap =
             [new_dataset (m_dataset_kwargs example_module)
                \<lparr> sample_list = [''c''], height_range = (0, 2), day_range = (0, 3),
                  dimension = 2 \<rparr> ''test_overlap_same_days'',
              new_dataset (m_dataset_kwargs example_module)
                \<lparr> sample_list = [''a'', ''b''], height_range = (0, 2), day_range = (3, 4),
                  dimension = 2 \<rparr> ''test_overlap_same_samples''] \<rparr>"
proof -
  have v: "(3::int) = py_int (id (validation_split example_module *
              real_of_int (num_points (train_val_selection example_module))))"
    by (simp add: example_module_fields py_int_def)
  have n: "0 \<le> num_points (train_val_selection example_module)"
    by (simp add: example_module_fields)
  show ?thesis
    unfolding prepare_data_value [where rnd = id and fs = example_fs and m = example_module,
        OF v n example_module_file]
    by (simp add: example_module_fields descending_perm_def py_range_12 py_slice_def
        slice_bound_def get_all_group_paths_def example_file_def Let_def)
qed

text \<open>
  C9. The validation view gets \<open>floor(validation_split * num_points)\<close> indices and the
  train view the remaining \<open>num_points - floor(validation_split * num_points)\<close>, where
  \<open>num_points\<close> is the size of the train+val selection. The product is the float product
  of the code: \<open>rnd\<close> is the rounding to a float, of which only monotonicity and
  exactness at 0 and at \<open>num_points\<close> are used. The fraction is in \<open>[0, 1]\<close>, the
  generator draws \<open>num_points\<close> indices, and the file opens and has a first group with a
  day axis, so that \<open>prepare_data\<close> returns.
\<close>

theorem train_val_split_sizes:
  assumes rounding: "mono rnd" "rnd 0 = 0" "rnd (real_of_int n) = real_of_int n"
      and frac: "0 \<le> validation_split m" "validation_split m \<le> 1"
      and n: "n = num_points (train_val_selection m)" "0 \<le> n"
      and perm: "int (length (randperm (seed m) n)) = n"
      and opened: "fs (m_hdf5_path m) = Some ((nm, g) # groups)"
      and days: "shape (data g) = total_days # rest"
  shows "\<exists>d. prepare_data fs randperm rnd set_order m = Inr d \<and>
           int (length (sub_indices (val d))) = \<lfloor>rnd (validation_split m * real_of_int n)\<rfloor> \<and>
           int (length (sub_indices (train d)))
             = n - \<lfloor>rnd (validation_split m * real_of_int n)\<rfloor>"
proof -
  define nv where "nv = \<lfloor>rnd (validation_split m * real_of_int n)\<rfloor>"
  have b: "py_int (rnd (validation_split m * real_of_int n)) = nv" "0 \<le> nv" "nv \<le> n"
    using num_val_bounds [OF rounding frac n(2)] by (simp_all add: nv_def)
  have v: "nv = py_int (rnd (validation_split m * real_of_int (num_points (train_val_selection m))))"
    using b(1) n(1) by simp
  have tr: "py_slice (randperm (seed m) n) 0 (n - nv) = take (nat (n - nv)) (randperm (seed m) n)"
    using b perm by (simp add: py_slice_prefix)
  have va: "py_slice (randperm (seed m) n) (n - nv) n = drop (nat (n - nv)) (randperm (seed m) n)"
    using b perm py_slice_suffix [of "n - nv" "randperm (seed m) n"] by simp
  have l1: "int (length (take (nat (n - nv)) (randperm (seed m) n))) = n - nv"
    using b perm by simp
  have l2: "int (length (drop (nat (n - nv)) (randperm (seed m) n))) = nv"
    using b perm by simp
  show ?thesis
    using n(2) l1 l2
    unfolding prepare_data_value [where rnd = rnd and fs = fs and m = m, OF v n(2) [unfolded n(1)] opened days] n(1) [symmetric] tr va
      nv_def [symmetric]
    by simp
qed

theorem train_val_split_sizes_witness:
  "\<exists>d. prepare_data example_fs descending_perm id id example_module = Inr d \<and>
        int (length (sub_indices (val d))) = 3 \<and> int (length (sub_indices (train d))) = 9"
proof -
  have r: "mono (id :: real \<Rightarrow> real)" "(id :: real \<Rightarrow> real) 0 = 0"
    "(id :: real \<Rightarrow> real) (real_of_int 12) = real_of_int 12"
    by (simp_all add: mono_def)
  have f: "0 \<le> validation_split example_module" "validation_split example_module \<le> 1"
    by (simp_all add: example_module_fields)
  have n: "12 = num_points (train_val_selection example_module)" "(0::int) \<le> 12"
    by (simp_all add: example_module_fields)
  have p: "int (length (descending_perm (seed example_module) 12)) = 12"
    by (simp add: descending_perm_def length_py_range)
  from train_val_split_sizes [where rnd = id and fs = example_fs and set_order = id
      and randperm = descending_perm and m = example_module and n = 12,
      OF r f n p example_module_file]
  show ?thesis by (simp add: example_module_fields)
qed

text \<open>
  C8 (as amended). The random split gives the train and the validation view disjoint
  sets of point indices of the train+val dataset, which together are all of
  \<open>[0, num_points)\<close>; and \<open>test_strict\<close> shares no sample with train and validation, so
  the (sample, day) pairs it can reach, with any index, are disjoint from those of the
  train view and from those of the validation view. Nothing is said of the
  (sample, day) pairs of train against validation.
\<close>

theorem split_views_disjoint:
  assumes rounding: "mono rnd" "rnd 0 = 0" "rnd (real_of_int n) = real_of_int n"
      and frac: "0 \<le> validation_split m" "validation_split m \<le> 1"
      and n: "n = num_points (train_val_selection m)" "0 \<le> n"
      and perm: "distinct (randperm (seed m) n)" "set (randperm (seed m) n) = {0..<n}"
      and order: "\<forall>xs. set (set_order xs) = set xs"
      and opened: "fs (m_hdf5_path m) = Some ((nm, g) # groups)"
      and days: "shape (data g) = total_days # rest"
  shows "\<exists>d. prepare_data fs randperm rnd set_order m = Inr d \<and>
           set (sub_indices (train d)) \<inter> set (sub_indices (val d)) = {} \<and>
           set (sub_indices (train d)) \<union> set (sub_indices (val d)) = {0..<n} \<and>
           set (sample_list (selection (test_strict d))) \<inter> set (train_samples m) = {} \<and>
           pairs_of (selection (test_strict d)) UNIV \<inter> subset_pairs (train d) = {} \<and>
           pairs_of (selection (test_strict d)) UNIV \<inter> subset_pairs (val d) = {}"
proof -
  define nv where "nv = \<lfloor>rnd (validation_split m * real_of_int n)\<rfloor>"
  define p where "p = randperm (seed m) n"
  have b: "py_int (rnd (validation_split m * real_of_int n)) = nv" "0 \<le> nv" "nv \<le> n"
    using num_val_bounds [OF rounding frac n(2)] by (simp_all add: nv_def)
  have v: "nv = py_int (rnd (validation_split m * real_of_int (num_points (train_val_selection m))))"
    using b(1) n(1) by simp
  have "card (set p) = nat n" using perm(2) by (simp add: p_def)
  then have len: "int (length p) = n" using perm(1) n(2) by (simp add: distinct_card p_def)
  have tr: "py_slice p 0 (n - nv) = take (nat (n - nv)) p"
    using b len by (simp add: py_slice_prefix)
  have va: "py_slice p (n - nv) n = drop (nat (n - nv)) p"
    using b len py_slice_suffix [of "n - nv" p] by simp
  have dj: "set (take (nat (n - nv)) p) \<inter> set (drop (nat (n - nv)) p) = {}"
    using perm(1) by (simp add: set_take_disj_set_drop_if_distinct p_def)
  have un: "set (take (nat (n - nv)) p) \<union> set (drop (nat (n - nv)) p) = {0..<n}"
    using perm(2) set_append [of "take (nat (n - nv)) p" "drop (nat (n - nv)) p"]
    by (simp add: p_def)
  let ?ts = "set_order (filter (\<lambda>s. s \<notin> set (train_samples m))
                (remdups (get_all_group_paths ((nm, g) # groups))))"
  have sm: "set ?ts \<inter> set (train_samples m) = {}" using order by auto
  let ?strict = "\<lparr> sample_list = ?ts, height_range = m_height_range m,
                 day_range = (snd (train_day_range m), total_days), dimension = m_dimension m \<rparr>"
  have pd: "pairs_of ?strict UNIV \<inter> pairs_of (train_val_selection m) idxs = {}" for idxs
    by (rule pairs_of_disjoint) (use sm in \<open>simp add: train_val_selection_def\<close>)
  show ?thesis
    using dj un sm pd
    unfolding prepare_data_value [where rnd = rnd and fs = fs and m = m, OF v n(2) [unfolded n(1)] opened days] n(1) [symmetric]
      p_def [symmetric] tr va
    by (simp add: subset_pairs_def new_dataset_def XRayDataset_init_def)
qed

theorem split_views_disjoint_witness:
  "\<exists>d. prepare_data example_fs descending_perm id id example_module = Inr d \<and>
        set (sub_indices (train d)) \<inter> set (sub_indices (val d)) = {} \<and>
        set (sub_indices (train d)) \<union> set (sub_indices (val d)) = {0..<12} \<and>
        set (sample_list (selection (test_strict d))) \<inter> set [''a'', ''b''] = {} \<and>
        pairs_of (selection (test_strict d)) UNIV \<inter> subset_pairs (train d) = {} \<and>
        pairs_of (selection (test_strict d)) UNIV \<inter> subset_pairs (val d) = {}"
proof -
  have r: "mono (id :: real \<Rightarrow> real)" "(id :: real \<Rightarrow> real) 0 = 0"
    "(id :: real \<Rightarrow> real) (real_of_int 12) = real_of_int 12"
    by (simp_all add: mono_def)
  have f: "0 \<le> validation_split example_module" "validation_split example_module \<le> 1"
    by (simp_all add: example_module_fields)
  have n: "12 = num_points (train_val_selection example_module)" "(0::int) \<le> 12"
    by (simp_all add: example_module_fields)
  have p: "distinct (descending_perm (seed example_module) 12)"
    "set (descending_perm (seed example_module) 12) = {0..<12}"
    by (simp_all add: descending_perm_def distinct_py_range set_py_range)
  have ord: "\<forall>xs. set ((id :: string list \<Rightarrow> string list) xs) = set xs" by simp
  from split_views_disjoint [where rnd = id and fs = example_fs and set_order = id
      and randperm = descending_perm and m = example_module and n = 12,
      OF r f n p ord example_module_file]
  show ?thesis by (simp add: example_module_fields)
qed

text \<open>
  The claim C8 as stated, that the (sample, day) pairs of train and validation are
  disjoint, fails: the split is by point index, and two heights of one (sample, day)
  can fall on either side. In the example, index 3 is in train, index 2 in validation,
  and both are sample \<open>a\<close>, day 1.
\<close>

theorem train_val_share_sample_day:
  "\<not> isl (prepare_data example_fs descending_perm id id example_module) \<and>
   (''a'', 1) \<in> subset_pairs
      (train (projr (prepare_data example_fs descending_perm id id example_module))) \<and>
   (''a'', 1) \<in> subset_pairs
      (val (projr (prepare_data example_fs descending_perm id id example_module)))"
proof -
  have sel: "selection (new_dataset (m_dataset_kwargs example_module)
                 (train_val_selection example_module) ''train_val'') = example_selection"
    by (simp add: new_dataset_def XRayDataset_init_def train_val_selection_def
        example_module_def XRayDataModule_init_def example_selection_def)
  have "reaches example_selection 3 (''a'', 1)" "reaches example_selection 2 (''a'', 1)"
    by (simp_all add: reaches_def resolve_index_eq example_selection_sizes)
       (simp_all add: example_selection_def num_samples_def)
  then have "(''a'', 1) \<in> pairs_of example_selection (set [11, 10, 9, 8, 7, 6, 5, 4, 3])"
    "(''a'', 1) \<in> pairs_of example_selection (set [2, 1, 0])"
    unfolding pairs_of_def by auto
  then show ?thesis
    by (simp add: example_prepare_data subset_pairs_def sel)
qed

end
